theory Spec2Isabelle
  imports Complex_Main
begin

section \<open>The uncollapsed Normal component of gpmcc (dists/normal\_uc.py)\<close>

text \<open>
  The class \<open>NormalUC\<close> holds sufficient statistics \<open>(N, sum_x, sum_x_sq)\<close>,
  hyperparameters \<open>(m, r, s, nu)\<close> and the sampled latent parameters \<open>(mu, rho)\<close>.
  Python floats are modelled as reals: arithmetic is exact, there is no rounding and no
  overflow. A float that is \<open>nan\<close>, \<open>inf\<close> or \<open>-inf\<close> (scipy returns these
  instead of raising) is the value \<open>NonFinite\<close>. Every Python exception is a value
  \<open>Inl e\<close> of a sum type.
\<close>

subsection \<open>Errors and floating-point results\<close>

text \<open>
  \<open>TypeError\<close>, \<open>ValueError\<close> and \<open>ZeroDivisionError\<close> are the built-in exceptions
  that the arithmetic of the source can raise. \<open>ConfigError\<close> and \<open>NumericError\<close>
  belong to the taxonomy of the specification; no statement of normal\_uc.py raises
  either of them.
\<close>

datatype error = TypeError | ValueError | ZeroDivisionError | ConfigError | NumericError

datatype pyfloat = Finite real | NonFinite

text \<open>Float addition: a sum with a non-finite operand is non-finite.\<close>

fun fadd :: "pyfloat \<Rightarrow> pyfloat \<Rightarrow> pyfloat" where
  "fadd (Finite a) (Finite b) = Finite (a + b)"
| "fadd _ _ = NonFinite"

subsection \<open>Python operators that can raise\<close>

text \<open>\<open>a / b\<close> on floats raises ZeroDivisionError when \<open>b\<close> is zero.\<close>

definition truediv :: "real \<Rightarrow> real \<Rightarrow> error + real" where
  "truediv a b = (if b = 0 then Inl ZeroDivisionError else Inr (a / b))"

text \<open>
  \<open>a ** .5\<close> on a float: Python 2, which gpmcc targets, raises ValueError (negative
  number cannot be raised to a fractional power) for a negative base.
\<close>

definition pow_half :: "real \<Rightarrow> error + real" where
  "pow_half a = (if a < 0 then Inl ValueError else Inr (sqrt a))"

text \<open>The expression \<open>1./a**.5\<close>: the power binds tighter than the division.\<close>

definition inv_sqrt :: "real \<Rightarrow> error + real" where
  "inv_sqrt a = (case pow_half a of Inl e \<Rightarrow> Inl e | Inr b \<Rightarrow> truediv 1 b)"

text \<open>\<open>math.log\<close> raises ValueError (math domain error) outside the positive reals.\<close>

definition math_log :: "real \<Rightarrow> error + real" where
  "math_log a = (if a \<le> 0 then Inl ValueError else Inr (ln a))"

definition LOG2PI :: real where
  "LOG2PI = ln (2 * pi)"

subsection \<open>Library densities\<close>

text \<open>
  \<open>scipy.stats.norm.logpdf(x, loc, scale)\<close> standardises \<open>x\<close>, evaluates
  \<open>-y**2/2 - log(sqrt(2*pi))\<close> and subtracts \<open>log(scale)\<close>; for a scale that is not
  positive it returns nan without raising.
\<close>

definition norm_logpdf :: "real \<Rightarrow> real \<Rightarrow> real \<Rightarrow> pyfloat" where
  "norm_logpdf x loc scale =
     (if 0 < scale
      then Finite (- (((x - loc) / scale)\<^sup>2) / 2 - ln (sqrt (2 * pi)) - ln scale)
      else NonFinite)"

text \<open>
  \<open>scipy.stats.gamma.logpdf(x, a, scale)\<close> needs the log-gamma function; it is taken
  as a parameter \<open>gamma_logpdf x a scale\<close> of the functions that call it.
\<close>

type_synonym gamma_logpdf = "real \<Rightarrow> real \<Rightarrow> real \<Rightarrow> pyfloat"

subsection \<open>The component's state\<close>

text \<open>
  The fields of the parent class \<open>Normal\<close> and the two fields \<open>NormalUC\<close> adds.
  \<open>mu\<close> and \<open>rho\<close> default to \<open>None\<close> in the constructor, hence the option type.
\<close>

record normal =
  N :: int
  sum_x :: real
  sum_x_sq :: real
  m :: real
  r :: real
  s :: real
  nu :: real

record normal_uc = normal +
  mu :: "real option"
  rho :: "real option"

subsection \<open>Static helpers of normal\_uc.py\<close>

definition calc_predictive_logp :: "real \<Rightarrow> real option \<Rightarrow> real option \<Rightarrow> error + pyfloat" where
  "calc_predictive_logp x mu' rho' =
     (case rho' of None \<Rightarrow> Inl TypeError
      | Some p \<Rightarrow>
          (case inv_sqrt p of Inl e \<Rightarrow> Inl e
           | Inr scale \<Rightarrow>
               (case mu' of None \<Rightarrow> Inl TypeError
                | Some u \<Rightarrow> Inr (norm_logpdf x u scale))))"

definition calc_log_likelihood ::
  "int \<Rightarrow> real \<Rightarrow> real \<Rightarrow> real option \<Rightarrow> real option \<Rightarrow> error + real" where
  "calc_log_likelihood N' sum_x' sum_x_sq' rho' mu' =
     (case rho' of None \<Rightarrow> Inl TypeError
      | Some p \<Rightarrow>
          (case math_log p of Inl e \<Rightarrow> Inl e
           | Inr lp \<Rightarrow>
               (case mu' of None \<Rightarrow> Inl TypeError
                | Some u \<Rightarrow>
                    Inr (- (of_int N' / 2) * LOG2PI + (of_int N' / 2) * lp
                         - 0.5 * (p * (of_int N' * u * u - 2 * u * sum_x' + sum_x_sq'))))))"

definition calc_log_prior ::
  "gamma_logpdf \<Rightarrow> real option \<Rightarrow> real option \<Rightarrow> real \<Rightarrow> real \<Rightarrow> real \<Rightarrow> real \<Rightarrow> error + pyfloat" where
  "calc_log_prior gamma_logpdf mu' rho' m' r' s' nu' =
     (case truediv 2 s' of Inl e \<Rightarrow> Inl e
      | Inr scale_rho \<Rightarrow>
          (case rho' of None \<Rightarrow> Inl TypeError
           | Some p \<Rightarrow>
               (let log_rho = gamma_logpdf p (nu' / 2) scale_rho in
                case inv_sqrt (r' * p) of Inl e \<Rightarrow> Inl e
                | Inr scale_mu \<Rightarrow>
                    (case mu' of None \<Rightarrow> Inl TypeError
                     | Some u \<Rightarrow> Inr (fadd (norm_logpdf u m' scale_mu) log_rho)))))"

subsection \<open>Methods of NormalUC\<close>

definition predictive_logp :: "real \<Rightarrow> normal_uc \<Rightarrow> error + pyfloat" where
  "predictive_logp x self = calc_predictive_logp x (mu self) (rho self)"

definition singleton_logp :: "real \<Rightarrow> normal_uc \<Rightarrow> error + pyfloat" where
  "singleton_logp x self = calc_predictive_logp x (mu self) (rho self)"

definition marginal_logp :: "gamma_logpdf \<Rightarrow> normal_uc \<Rightarrow> error + pyfloat" where
  "marginal_logp gamma_logpdf self =
     (case calc_log_likelihood (N self) (sum_x self) (sum_x_sq self) (rho self) (mu self) of
        Inl e \<Rightarrow> Inl e
      | Inr data_logp \<Rightarrow>
          (case calc_log_prior gamma_logpdf (mu self) (rho self) (m self) (r self) (s self) (nu self) of
             Inl e \<Rightarrow> Inl e
           | Inr prior_logp \<Rightarrow> Inr (fadd (Finite data_logp) prior_logp)))"

subsection \<open>The parent class and the samplers\<close>

text \<open>
  Modelled from the spec: \<open>Normal.__init__\<close> of gpmcc/dists/normal.py, which is not
  among the sources. It stores the sufficient statistics and the hyperparameters; the
  specification's error taxonomy has hyperparameters that violate positivity rejected at
  construction with a ConfigError.
\<close>

definition Normal_init ::
  "int \<Rightarrow> real \<Rightarrow> real \<Rightarrow> real \<Rightarrow> real \<Rightarrow> real \<Rightarrow> real \<Rightarrow> error + normal" where
  "Normal_init N' sum_x' sum_x_sq' m' r' s' nu' =
     (if r' \<le> 0 \<or> s' \<le> 0 \<or> nu' \<le> 0 then Inl ConfigError
      else Inr \<lparr>N = N', sum_x = sum_x', sum_x_sq = sum_x_sq',
                m = m', r = r', s = s', nu = nu'\<rparr>)"

text \<open>
  The random-number primitives are injected: \<open>sample_gamma shape rate\<close> and
  \<open>sample_normal mean precision\<close> each take the generator's state and return the draw
  with the new state.
\<close>

type_synonym 'g sampler = "real \<Rightarrow> real \<Rightarrow> 'g \<Rightarrow> real \<times> 'g"

text \<open>
  Modelled from the spec: \<open>Normal.posterior_hypers\<close>, inherited from
  gpmcc/dists/normal.py, which is not among the sources. The four formulas are those of
  the specification; the division raises ZeroDivisionError when \<open>rn\<close> is zero, as
  Python's does.
\<close>

definition posterior_hypers ::
  "int \<Rightarrow> real \<Rightarrow> real \<Rightarrow> real \<Rightarrow> real \<Rightarrow> real \<Rightarrow> real
     \<Rightarrow> error + (real \<times> real \<times> real \<times> real)" where
  "posterior_hypers N' sum_x' sum_x_sq' m' r' s' nu' =
     (let rn = r' + of_int N';
          nun = nu' + of_int N'
      in case truediv (r' * m' + sum_x') rn of
           Inl e \<Rightarrow> Inl e
         | Inr mn \<Rightarrow> Inr (rn, nun, mn, s' + sum_x_sq' + r' * m' * m' - rn * mn * mn))"

text \<open>
  Modelled from the spec: \<open>Normal.sample_parameters\<close>, inherited from
  gpmcc/dists/normal.py, which is not among the sources. It draws
  \<open>rho ~ Gamma(nu/2, rate = s/2)\<close> first and then \<open>mu ~ Normal(m, precision = r * rho)\<close>,
  and returns the pair \<open>(mu, rho)\<close>.
\<close>

definition sample_parameters ::
  "'g sampler \<Rightarrow> 'g sampler \<Rightarrow> real \<Rightarrow> real \<Rightarrow> real \<Rightarrow> real \<Rightarrow> 'g \<Rightarrow> (real \<times> real) \<times> 'g" where
  "sample_parameters sample_gamma sample_normal m' r' s' nu' g =
     (let (rho', g1) = sample_gamma (nu' / 2) (s' / 2) g;
          (mu', g2) = sample_normal m' (r' * rho') g1
      in ((mu', rho'), g2))"

subsection \<open>Transition of the latent parameters and construction\<close>

text \<open>
  \<open>transition_params\<close> passes the posterior hyperparameters \<open>(rn, nun, mn, sn)\<close> to
  \<open>sample_parameters\<close> in the order \<open>(mn, rn, sn, nun)\<close> and assigns the pair it
  returns to \<open>self.mu, self.rho\<close>. An exception leaves the object as it was: the
  assignment is the last statement.
\<close>

definition transition_params ::
  "'g sampler \<Rightarrow> 'g sampler \<Rightarrow> normal_uc \<Rightarrow> 'g \<Rightarrow> error + (normal_uc \<times> 'g)" where
  "transition_params sample_gamma sample_normal self g =
     (case posterior_hypers (N self) (sum_x self) (sum_x_sq self)
             (m self) (r self) (s self) (nu self) of
        Inl e \<Rightarrow> Inl e
      | Inr (rn, nun, mn, sn) \<Rightarrow>
          (let ((mu', rho'), g') = sample_parameters sample_gamma sample_normal mn rn sn nun g
           in Inr (self\<lparr>mu := Some mu', rho := Some rho'\<rparr>, g')))"

text \<open>
  \<open>NormalUC.__init__\<close>: the parent's constructor runs first, then \<open>mu\<close> and \<open>rho\<close>
  are stored as given, and \<open>transition_params\<close> is called when either is \<open>None\<close>.
  Python's default arguments (\<open>N=0, sum_x=0, sum_x_sq=0, mu=None, rho=None, m=0, r=1,
  s=1, nu=1\<close>) are passed explicitly; \<open>distargs\<close> is only handed to the parent.
\<close>

definition NormalUC_init ::
  "'g sampler \<Rightarrow> 'g sampler \<Rightarrow> int \<Rightarrow> real \<Rightarrow> real \<Rightarrow> real option \<Rightarrow> real option
     \<Rightarrow> real \<Rightarrow> real \<Rightarrow> real \<Rightarrow> real \<Rightarrow> 'g \<Rightarrow> error + (normal_uc \<times> 'g)" where
  "NormalUC_init sample_gamma sample_normal N' sum_x' sum_x_sq' mu' rho' m' r' s' nu' g =
     (case Normal_init N' sum_x' sum_x_sq' m' r' s' nu' of
        Inl e \<Rightarrow> Inl e
      | Inr base \<Rightarrow>
          (let self = normal.extend base (normal_uc.fields mu' rho')
           in if mu' = None \<or> rho' = None
              then transition_params sample_gamma sample_normal self g
              else Inr (self, g)))"

subsection \<open>The specification's formulas\<close>

text \<open>
  These definitions follow the words of the specification, not the code; the theorems
  below compare them with what the code computes. The Normal log-density is the
  logarithm of the density of \<open>Normal(mean, sd)\<close>.
\<close>

definition spec_normal_logpdf :: "real \<Rightarrow> real \<Rightarrow> real \<Rightarrow> real" where
  "spec_normal_logpdf x mean sd =
     ln (exp (- ((x - mean)\<^sup>2) / (2 * sd\<^sup>2)) / (sd * sqrt (2 * pi)))"

definition spec_log_likelihood :: "int \<Rightarrow> real \<Rightarrow> real \<Rightarrow> real \<Rightarrow> real \<Rightarrow> real" where
  "spec_log_likelihood N' sum_x' sum_x_sq' rho' mu' =
     - (of_int N' / 2) * ln (2 * pi) + (of_int N' / 2) * ln rho'
     - (rho' / 2) * (of_int N' * mu'\<^sup>2 - 2 * mu' * sum_x' + sum_x_sq')"

definition spec_log_prior ::
  "gamma_logpdf \<Rightarrow> real \<Rightarrow> real \<Rightarrow> real \<Rightarrow> real \<Rightarrow> real \<Rightarrow> real \<Rightarrow> pyfloat" where
  "spec_log_prior gamma_logpdf mu' rho' m' r' s' nu' =
     fadd (gamma_logpdf rho' (nu' / 2) (2 / s'))
          (Finite (spec_normal_logpdf mu' m' (1 / sqrt (r' * rho'))))"

subsection \<open>Concrete inputs\<close>

text \<open>
  Deterministic stand-ins for the injected primitives: each sampler returns the mean of
  its distribution and counts the draw in the generator state; \<open>exp_logpdf\<close> is the
  Gamma log-density of shape one. \<open>two_points\<close> is the component that holds the data
  \<open>1\<close> and \<open>2\<close> under the constructor's default hyperparameters.
\<close>

definition gamma_mean :: "nat sampler" where
  "gamma_mean shape rate g = (shape / rate, Suc g)"

definition normal_mean :: "nat sampler" where
  "normal_mean mean precision g = (mean, Suc g)"

definition exp_logpdf :: gamma_logpdf where
  "exp_logpdf x a scale =
     (if 0 < x \<and> 0 < scale then Finite (- x / scale - ln scale) else NonFinite)"

definition two_points :: normal_uc where
  "two_points = \<lparr>N = 2, sum_x = 3, sum_x_sq = 5, m = 0, r = 1, s = 1, nu = 1,
                  mu = Some 1, rho = Some 4\<rparr>"

section \<open>Properties\<close>

subsection \<open>Auxiliary facts\<close>

lemma inv_sqrt_pos: "0 < a \<Longrightarrow> inv_sqrt a = Inr (1 / sqrt a)"
  by (simp add: inv_sqrt_def pow_half_def truediv_def)

lemma inv_sqrt_nonpos:
  "a \<le> 0 \<Longrightarrow> inv_sqrt a = Inl (if a = 0 then ZeroDivisionError else ValueError)"
  by (simp add: inv_sqrt_def pow_half_def truediv_def)

text \<open>scipy's computation agrees with the logarithm of the Normal density.\<close>

lemma norm_logpdf_spec:
  assumes "0 < sd"
  shows "norm_logpdf x loc sd = Finite (spec_normal_logpdf x loc sd)"
proof -
  have pos: "0 < sd * sqrt (2 * pi)" using assms by simp
  have "spec_normal_logpdf x loc sd
          = - ((x - loc)\<^sup>2) / (2 * sd\<^sup>2) - ln (sd * sqrt (2 * pi))"
    unfolding spec_normal_logpdf_def using pos by (simp add: ln_div)
  also have "ln (sd * sqrt (2 * pi)) = ln sd + ln (sqrt (2 * pi))"
    using assms by (simp add: ln_mult)
  also have "- ((x - loc)\<^sup>2) / (2 * sd\<^sup>2) = - (((x - loc) / sd)\<^sup>2) / 2"
    by (simp add: power_divide)
  finally show ?thesis using assms by (simp add: norm_logpdf_def)
qed

lemma fadd_commute: "fadd a b = fadd b a"
  by (cases a; cases b) simp_all

lemma transition_two_points:
  "transition_params gamma_mean normal_mean two_points 0
     = Inr (two_points\<lparr>mu := Some 1, rho := Some 1\<rparr>, 2)"
  by (simp add: transition_params_def posterior_hypers_def truediv_def sample_parameters_def
      gamma_mean_def normal_mean_def two_points_def numeral_2_eq_2)

subsection \<open>A numerical enclosure of \<open>ln (2 * pi)\<close>\<close>

text \<open>
  Polynomial bounds on the arc tangent near zero give \<open>pi\<close> to three decimals through
  Euler's Machin-like formula; Taylor's theorem for the exponential turns them into
  bounds on \<open>ln (2 * pi)\<close>.
\<close>

lemma arctan_ge_cubic:
  fixes x :: real
  assumes "0 \<le> x"
  shows "x - x ^ 3 / 3 \<le> arctan x"
proof -
  define f where "f = (\<lambda>t::real. arctan t - (t - t ^ 3 / 3))"
  have "f 0 \<le> f x"
  proof (rule DERIV_nonneg_imp_nondecreasing [OF assms])
    fix t :: real
    have d: "DERIV f t :> inverse (1 + t\<^sup>2) - (1 - t\<^sup>2)"
      unfolding f_def by (auto intro!: derivative_eq_intros simp: power2_eq_square)
    have "inverse (1 + t\<^sup>2) - (1 - t\<^sup>2) = t ^ 4 / (1 + t\<^sup>2)"
    proof -
      have nz: "1 + t\<^sup>2 \<noteq> 0" by (metis add.commute sum_power2_eq_zero_iff zero_neq_one one_power2)
      have "(1 - t\<^sup>2) * (1 + t\<^sup>2) = 1 - t ^ 4"
        by (simp add: algebra_simps power2_eq_square power4_eq_xxxx)
      then show ?thesis using nz by (simp add: field_simps)
    qed
    moreover have "0 \<le> t ^ 4 / (1 + t\<^sup>2)" by simp
    ultimately show "\<exists>y. DERIV f t :> y \<and> 0 \<le> y" using d by auto
  qed
  then show ?thesis by (simp add: f_def)
qed

lemma arctan_le_quintic:
  fixes x :: real
  assumes "0 \<le> x"
  shows "arctan x \<le> x - x ^ 3 / 3 + x ^ 5 / 5"
proof -
  define f where "f = (\<lambda>t::real. (t - t ^ 3 / 3 + t ^ 5 / 5) - arctan t)"
  have "f 0 \<le> f x"
  proof (rule DERIV_nonneg_imp_nondecreasing [OF assms])
    fix t :: real
    have d: "DERIV f t :> (1 - t\<^sup>2 + t ^ 4) - inverse (1 + t\<^sup>2)"
      unfolding f_def by (auto intro!: derivative_eq_intros simp: power2_eq_square power4_eq_xxxx)
    have "(1 - t\<^sup>2 + t ^ 4) - inverse (1 + t\<^sup>2) = t ^ 6 / (1 + t\<^sup>2)"
    proof -
      have nz: "1 + t\<^sup>2 \<noteq> 0" by (metis add.commute sum_power2_eq_zero_iff zero_neq_one one_power2)
      have "(1 - t\<^sup>2 + t ^ 4) * (1 + t\<^sup>2) = 1 + t ^ 6"
        by (simp add: algebra_simps power2_eq_square power4_eq_xxxx eval_nat_numeral)
      then show ?thesis using nz by (simp add: field_simps)
    qed
    moreover have "0 \<le> t ^ 6 / (1 + t\<^sup>2)" by simp
    ultimately show "\<exists>y. DERIV f t :> y \<and> 0 \<le> y" using d by auto
  qed
  then show ?thesis by (simp add: f_def)
qed

lemma pi_bounds: "3.1413 < pi \<and> pi < 3.1417"
proof -
  have eq: "pi = 20 * arctan (1 / 7) + 8 * arctan (3 / 79)"
    using machin_Euler by simp
  have "(0.141885 :: real) \<le> (1/7) - (1/7) ^ 3 / 3" by (simp add: power_divide)
  also have "\<dots> \<le> arctan (1 / 7)" by (rule arctan_ge_cubic) simp
  finally have l1: "0.141885 \<le> arctan (1 / 7 :: real)" .
  have "(0.037956 :: real) \<le> (3/79) - (3/79) ^ 3 / 3" by (simp add: power_divide)
  also have "\<dots> \<le> arctan (3 / 79)" by (rule arctan_ge_cubic) simp
  finally have l2: "0.037956 \<le> arctan (3 / 79 :: real)" .
  have "arctan (1 / 7 :: real) \<le> (1/7) - (1/7) ^ 3 / 3 + (1/7) ^ 5 / 5"
    by (rule arctan_le_quintic) simp
  also have "\<dots> \<le> 0.14190" by (simp add: power_divide)
  finally have u1: "arctan (1 / 7 :: real) \<le> 0.14190" .
  have "arctan (3 / 79 :: real) \<le> (3/79) - (3/79) ^ 3 / 3 + (3/79) ^ 5 / 5"
    by (rule arctan_le_quintic) simp
  also have "\<dots> \<le> 0.037957" by (simp add: power_divide)
  finally have u2: "arctan (3 / 79 :: real) \<le> 0.037957" .
  show ?thesis using eq l1 l2 u1 u2 by simp
qed

lemma exp_two_le: "exp (2::real) \<le> 9"
proof -
  have "exp (2::real) = exp 1 * exp 1" by (simp add: exp_add [symmetric])
  also have "\<dots> \<le> 3 * 3" by (intro mult_mono exp_le) simp_all
  finally show ?thesis by simp
qed

text \<open>Taylor polynomial of the exponential with a bound on the remainder.\<close>

lemma exp_taylor_bounds:
  fixes x :: real
  assumes "0 < x" "x \<le> 2" "0 < n"
  shows "(\<Sum>m<n. x ^ m / fact m) \<le> exp x
       \<and> exp x \<le> (\<Sum>m<n. x ^ m / fact m) + 9 * x ^ n / fact n"
proof -
  from Maclaurin_exp_le [of x n] obtain t where
    t: "\<bar>t\<bar> \<le> \<bar>x\<bar>" and e: "exp x = (\<Sum>m<n. x ^ m / fact m) + (exp t / fact n) * x ^ n"
    by blast
  have "t \<le> 2" using t assms by simp
  then have "exp t \<le> exp 2" by simp
  then have et: "exp t \<le> 9" using exp_two_le by linarith
  have xn: "0 \<le> x ^ n / fact n" using assms by simp
  have "(exp t / fact n) * x ^ n = exp t * (x ^ n / fact n)" by simp
  moreover have "0 \<le> exp t * (x ^ n / fact n)"
    by (rule mult_nonneg_nonneg [OF _ xn]) simp
  moreover have "exp t * (x ^ n / fact n) \<le> 9 * (x ^ n / fact n)"
    using et xn by (rule mult_right_mono)
  ultimately show ?thesis using e by simp
qed

lemma exp_upper: "exp (1.8376 :: real) < 6.2826"
proof -
  have "exp (1.8376 :: real) \<le> (\<Sum>m<13. 1.8376 ^ m / fact m) + 9 * 1.8376 ^ 13 / fact 13"
    using exp_taylor_bounds [of "1.8376" 13] by simp
  also have "\<dots> < 6.2826"
    by (simp add: eval_nat_numeral lessThan_Suc fact_numeral)
  finally show ?thesis .
qed

lemma exp_lower: "(6.2834 :: real) < exp 1.838"
proof -
  have "(6.2834 :: real) < (\<Sum>m<13. 1.838 ^ m / fact m)"
    by (simp add: eval_nat_numeral lessThan_Suc fact_numeral)
  also have "\<dots> \<le> exp 1.838"
    using exp_taylor_bounds [of "1.838" 13] by simp
  finally show ?thesis .
qed

lemma ln_two_pi_bounds: "1.8376 < ln (2 * pi) \<and> ln (2 * pi) < 1.838"
proof -
  have "exp 1.8376 < 2 * pi" using exp_upper pi_bounds by linarith
  then have "ln (exp 1.8376) < ln (2 * pi)"
    by (subst ln_less_cancel_iff) simp_all
  moreover have "2 * pi < exp 1.838" using exp_lower pi_bounds by linarith
  then have "ln (2 * pi) < ln (exp 1.838)"
    by (subst ln_less_cancel_iff) simp_all
  ultimately show ?thesis by simp
qed

lemma half_window:
  fixes L :: real
  assumes "1.8376 < L" "L < 1.838"
  shows "\<bar>- 0.5 * L - (- 0.9189)\<bar> < 0.0001"
proof -
  have up: "- 0.5 * L - (- 0.9189) < 0.0001" using assms by simp
  have lo: "- (- 0.5 * L - (- 0.9189)) < 0.0001" using assms by simp
  from up lo show ?thesis by (intro abs_less_iff [THEN iffD2] conjI)
qed

subsection \<open>Transition of the latent parameters\<close>

text \<open>
  C1: for every state, \<open>transition_params\<close> computes \<open>rn = r + N\<close>, \<open>nun = nu + N\<close>,
  \<open>mn = (r*m + sum_x)/rn\<close> and \<open>sn = s + sum_x_sq + r*m*m - rn*mn*mn\<close>, draws
  \<open>rho\<close> from the Gamma sampler with shape \<open>nun/2\<close> and rate \<open>sn/2\<close> on the incoming
  generator state, and then draws \<open>mu\<close> from the Normal sampler with mean \<open>mn\<close> and
  precision \<open>rn * rho\<close>, where \<open>rho\<close> is the value just drawn, on the generator state
  the Gamma draw left. The division by \<open>rn\<close> is the only step that can raise.
\<close>

theorem transition_params_posterior:
  "transition_params sample_gamma sample_normal self g =
     (let rn = r self + of_int (N self);
          nun = nu self + of_int (N self);
          mn = (r self * m self + sum_x self) / rn;
          sn = s self + sum_x_sq self + r self * m self * m self - rn * mn * mn;
          (rho', g1) = sample_gamma (nun / 2) (sn / 2) g;
          (mu', g2) = sample_normal mn (rn * rho') g1
      in if rn = 0 then Inl ZeroDivisionError
         else Inr (self\<lparr>mu := Some mu', rho := Some rho'\<rparr>, g2))"
  by (simp add: transition_params_def posterior_hypers_def sample_parameters_def truediv_def
        Let_def split: prod.splits)

text \<open>
  C9: a call of \<open>transition_params\<close> that returns leaves the sufficient statistics
  \<open>(N, sum_x, sum_x_sq)\<close> and the hyperparameters \<open>(m, r, s, nu)\<close> as they were; the new
  state is the old one with \<open>mu\<close> and \<open>rho\<close> replaced. (A call that raises assigns
  nothing.)
\<close>

theorem transition_params_frame:
  "transition_params sample_gamma sample_normal self g = Inr (self', g') \<Longrightarrow>
     N self' = N self \<and> sum_x self' = sum_x self \<and> sum_x_sq self' = sum_x_sq self
     \<and> m self' = m self \<and> r self' = r self \<and> s self' = s self \<and> nu self' = nu self
     \<and> self' = self\<lparr>mu := mu self', rho := rho self'\<rparr>"
  by (auto simp: transition_params_def Let_def split: sum.splits prod.splits)

theorem transition_params_frame_witness:
  "transition_params gamma_mean normal_mean two_points 0
     = Inr (two_points\<lparr>mu := Some 1, rho := Some 1\<rparr>, 2)
   \<and> N (two_points\<lparr>mu := Some 1, rho := Some 1\<rparr>) = N two_points
   \<and> sum_x (two_points\<lparr>mu := Some 1, rho := Some 1\<rparr>) = sum_x two_points
   \<and> sum_x_sq (two_points\<lparr>mu := Some 1, rho := Some 1\<rparr>) = sum_x_sq two_points
   \<and> m (two_points\<lparr>mu := Some 1, rho := Some 1\<rparr>) = m two_points
   \<and> r (two_points\<lparr>mu := Some 1, rho := Some 1\<rparr>) = r two_points
   \<and> s (two_points\<lparr>mu := Some 1, rho := Some 1\<rparr>) = s two_points
   \<and> nu (two_points\<lparr>mu := Some 1, rho := Some 1\<rparr>) = nu two_points"
  using transition_params_frame [OF transition_two_points] transition_two_points
  by simp

subsection \<open>Log-densities\<close>

text \<open>
  C2: for every state of the data model (\<open>mu\<close> and \<open>rho\<close> set, \<open>rho > 0\<close>,
  \<open>r > 0\<close>, \<open>s\<close> not zero), \<open>marginal_logp\<close> returns the sum of the specification's
  \<open>log_likelihood = -(N/2)*log(2*pi) + (N/2)*log(rho)
     - (rho/2)*(N*mu^2 - 2*mu*sum_x + sum_x_sq)\<close>
  and \<open>log_prior = GammaLogPdf(rho; shape = nu/2, scale = 2/s)
     + NormalLogPdf(mu; mean = m, sd = 1/sqrt(r*rho))\<close>:
  a joint log-density of data and parameters.
\<close>

theorem marginal_logp_decomposition:
  assumes "mu self = Some u" "rho self = Some p" "0 < p" "0 < r self" "s self \<noteq> 0"
  shows "marginal_logp gamma_logpdf self =
     Inr (fadd (Finite (spec_log_likelihood (N self) (sum_x self) (sum_x_sq self) p u))
               (spec_log_prior gamma_logpdf u p (m self) (r self) (s self) (nu self)))"
proof -
  have ll: "calc_log_likelihood (N self) (sum_x self) (sum_x_sq self) (rho self) (mu self)
          = Inr (spec_log_likelihood (N self) (sum_x self) (sum_x_sq self) p u)"
    using assms by (simp add: calc_log_likelihood_def math_log_def LOG2PI_def
        spec_log_likelihood_def power2_eq_square)
  have "0 < r self * p" using assms by simp
  then have pr: "calc_log_prior gamma_logpdf (mu self) (rho self)
                   (m self) (r self) (s self) (nu self)
          = Inr (spec_log_prior gamma_logpdf u p (m self) (r self) (s self) (nu self))"
    using assms by (simp add: calc_log_prior_def truediv_def inv_sqrt_pos norm_logpdf_spec
        spec_log_prior_def fadd_commute)
  show ?thesis by (simp add: marginal_logp_def ll pr)
qed

theorem marginal_logp_decomposition_witness:
  "marginal_logp exp_logpdf two_points =
     Inr (fadd (Finite (spec_log_likelihood 2 3 5 4 1)) (spec_log_prior exp_logpdf 1 4 0 1 1 1))"
  using marginal_logp_decomposition [of two_points 1 4 exp_logpdf]
  by (simp add: two_points_def)

text \<open>
  C3: for every datum \<open>x\<close> and every state with \<open>rho > 0\<close>, \<open>predictive_logp x\<close>
  returns the Normal log-density of \<open>x\<close> with mean \<open>mu\<close> and standard deviation
  \<open>1/sqrt(rho)\<close>; and any state with the same \<open>mu\<close> and \<open>rho\<close>, whatever its
  sufficient statistics and hyperparameters, gives the same result.
\<close>

theorem predictive_logp_normal_density:
  "mu self = Some u \<Longrightarrow> rho self = Some p \<Longrightarrow> 0 < p \<Longrightarrow>
     predictive_logp x self = Inr (Finite (spec_normal_logpdf x u (1 / sqrt p)))
     \<and> (\<forall>self'. mu self' = mu self \<and> rho self' = rho self
           \<longrightarrow> predictive_logp x self' = predictive_logp x self)"
  by (simp add: predictive_logp_def calc_predictive_logp_def inv_sqrt_pos norm_logpdf_spec)

theorem predictive_logp_normal_density_witness:
  "predictive_logp 3 two_points = Inr (Finite (spec_normal_logpdf 3 1 (1 / sqrt 4)))
   \<and> predictive_logp 3 (two_points\<lparr>N := 0, sum_x := 0, sum_x_sq := 0\<rparr>)
       = predictive_logp 3 two_points"
  using predictive_logp_normal_density [of two_points 1 4 3]
  by (simp add: two_points_def)

text \<open>
  C5: for every datum \<open>x\<close> and every state, \<open>singleton_logp x\<close> equals
  \<open>predictive_logp x\<close>, and changing \<open>N\<close> does not change it.
\<close>

theorem singleton_logp_is_predictive_logp:
  "singleton_logp x self = predictive_logp x self
   \<and> singleton_logp x (self\<lparr>N := n\<rparr>) = singleton_logp x self"
  by (simp add: singleton_logp_def predictive_logp_def)

text \<open>
  C7, as stated: \<open>predictive_logp\<close> on a state with \<open>rho \<le> 0\<close> would raise a
  NumericError. At \<open>rho = 0\<close> the division \<open>1./rho**.5\<close> raises ZeroDivisionError.
\<close>

theorem predictive_logp_zero_rho_counterexample:
  "predictive_logp 0 \<lparr>N = 0, sum_x = 0, sum_x_sq = 0, m = 0, r = 1, s = 1, nu = 1,
                       mu = Some 0, rho = Some 0\<rparr> = Inl ZeroDivisionError
   \<and> predictive_logp 0 \<lparr>N = 0, sum_x = 0, sum_x_sq = 0, m = 0, r = 1, s = 1, nu = 1,
                       mu = Some 0, rho = Some 0\<rparr> \<noteq> Inl NumericError"
  by (simp add: predictive_logp_def calc_predictive_logp_def inv_sqrt_def pow_half_def truediv_def)

text \<open>
  C7, amended: for every input \<open>x\<close>, \<open>predictive_logp x\<close> on a state whose precision
  \<open>rho\<close> is not positive returns no log-density: it raises ZeroDivisionError when
  \<open>rho = 0\<close> and ValueError when \<open>rho < 0\<close>, the errors of the expression
  \<open>1./rho**.5\<close>.
\<close>

theorem predictive_logp_nonpositive_rho:
  "rho self = Some p \<Longrightarrow> p \<le> 0 \<Longrightarrow>
     predictive_logp x self = Inl (if p = 0 then ZeroDivisionError else ValueError)"
  by (simp add: predictive_logp_def calc_predictive_logp_def inv_sqrt_nonpos)

theorem predictive_logp_nonpositive_rho_witness:
  "predictive_logp 3 (two_points\<lparr>rho := Some (- 1)\<rparr>) = Inl ValueError"
  using predictive_logp_nonpositive_rho [of "two_points\<lparr>rho := Some (- 1)\<rparr>" "- 1" 3]
  by simp

text \<open>
  C8: in a state with \<open>mu = 0\<close> and \<open>rho = 1\<close>, \<open>predictive_logp 0\<close> is the
  standard-normal log-density at zero, \<open>-0.5 * log(2*pi)\<close>, which lies within
  \<open>0.0001\<close> of \<open>-0.9189\<close>.
\<close>

theorem predictive_logp_standard_normal:
  assumes "mu self = Some 0" "rho self = Some 1"
  shows "predictive_logp 0 self = Inr (Finite (- 0.5 * ln (2 * pi)))
       \<and> \<bar>- 0.5 * ln (2 * pi) - (- 0.9189)\<bar> < 0.0001"
proof -
  have "predictive_logp 0 self = Inr (Finite (- 0.5 * ln (2 * pi)))"
    using assms
    by (simp add: predictive_logp_def calc_predictive_logp_def inv_sqrt_pos norm_logpdf_def
        ln_sqrt)
  moreover have "\<bar>- 0.5 * ln (2 * pi) - (- 0.9189)\<bar> < 0.0001"
    using ln_two_pi_bounds by (intro half_window) blast+
  ultimately show ?thesis by simp
qed

theorem predictive_logp_standard_normal_witness:
  "predictive_logp 0 (two_points\<lparr>mu := Some 0, rho := Some 1\<rparr>)
     = Inr (Finite (- 0.5 * ln (2 * pi)))
   \<and> \<bar>- 0.5 * ln (2 * pi) - (- 0.9189)\<bar> < 0.0001"
  using predictive_logp_standard_normal [of "two_points\<lparr>mu := Some 0, rho := Some 1\<rparr>"]
  by simp

subsection \<open>Construction\<close>

text \<open>
  C6: when \<open>mu\<close> or \<open>rho\<close> is not supplied, the constructor's result is that of
  \<open>transition_params\<close> on the state it has just stored: the instance holds the
  \<open>rho\<close> and \<open>mu\<close> drawn for the posterior hyperparameters of the supplied
  statistics and hyperparameters. With all statistics zero these are the prior's
  \<open>(r, nu, m, s)\<close>.
\<close>

theorem init_samples_missing_parameters:
  assumes "mu' = None \<or> rho' = None" "0 < r'" "0 < s'" "0 < nu'"
  shows "NormalUC_init sample_gamma sample_normal N' sum_x' sum_x_sq' mu' rho' m' r' s' nu' g
       = transition_params sample_gamma sample_normal
           \<lparr>N = N', sum_x = sum_x', sum_x_sq = sum_x_sq', m = m', r = r', s = s', nu = nu',
            mu = mu', rho = rho'\<rparr> g
     \<and> NormalUC_init sample_gamma sample_normal N' sum_x' sum_x_sq' mu' rho' m' r' s' nu' g
       = (let rn = r' + of_int N';
              nun = nu' + of_int N';
              mn = (r' * m' + sum_x') / rn;
              sn = s' + sum_x_sq' + r' * m' * m' - rn * mn * mn;
              (rho'', g1) = sample_gamma (nun / 2) (sn / 2) g;
              (mu'', g2) = sample_normal mn (rn * rho'') g1
          in if rn = 0 then Inl ZeroDivisionError
             else Inr (\<lparr>N = N', sum_x = sum_x', sum_x_sq = sum_x_sq', m = m', r = r', s = s',
                        nu = nu', mu = Some mu'', rho = Some rho''\<rparr>, g2))
     \<and> posterior_hypers 0 0 0 m' r' s' nu' = Inr (r', nu', m', s')"
proof -
  have a: "NormalUC_init sample_gamma sample_normal N' sum_x' sum_x_sq' mu' rho' m' r' s' nu' g
       = transition_params sample_gamma sample_normal
           \<lparr>N = N', sum_x = sum_x', sum_x_sq = sum_x_sq', m = m', r = r', s = s', nu = nu',
            mu = mu', rho = rho'\<rparr> g"
    using assms by (auto simp: NormalUC_init_def Normal_init_def normal.defs normal_uc.defs)
  have b: "transition_params sample_gamma sample_normal
           \<lparr>N = N', sum_x = sum_x', sum_x_sq = sum_x_sq', m = m', r = r', s = s', nu = nu',
            mu = mu', rho = rho'\<rparr> g
       = (let rn = r' + of_int N';
              nun = nu' + of_int N';
              mn = (r' * m' + sum_x') / rn;
              sn = s' + sum_x_sq' + r' * m' * m' - rn * mn * mn;
              (rho'', g1) = sample_gamma (nun / 2) (sn / 2) g;
              (mu'', g2) = sample_normal mn (rn * rho'') g1
          in if rn = 0 then Inl ZeroDivisionError
             else Inr (\<lparr>N = N', sum_x = sum_x', sum_x_sq = sum_x_sq', m = m', r = r', s = s',
                        nu = nu', mu = Some mu'', rho = Some rho''\<rparr>, g2))"
    by (simp add: transition_params_def posterior_hypers_def sample_parameters_def truediv_def
        Let_def split: prod.splits)
  have c: "posterior_hypers 0 0 0 m' r' s' nu' = Inr (r', nu', m', s')"
    using assms(2) by (simp add: posterior_hypers_def truediv_def)
  show ?thesis using a b c by simp
qed

theorem init_samples_missing_parameters_witness:
  "NormalUC_init gamma_mean normal_mean 0 0 0 None None 0 1 1 1 (0::nat)
     = Inr (\<lparr>N = 0, sum_x = 0, sum_x_sq = 0, m = 0, r = 1, s = 1, nu = 1,
             mu = Some 0, rho = Some 1\<rparr>, 2)"
  using init_samples_missing_parameters
          [of None None 1 1 1 gamma_mean normal_mean 0 0 0 0 0, THEN conjunct2, THEN conjunct1]
  by (simp add: gamma_mean_def normal_mean_def numeral_2_eq_2)

text \<open>
  C10: when both \<open>mu\<close> and \<open>rho\<close> are supplied, the constructor stores them as
  given, whatever their values, and draws nothing: the generator state comes back
  unchanged for every pair of samplers. A component with \<open>rho \<le> 0\<close> is constructed
  without an error.
\<close>

theorem init_stores_supplied_parameters:
  "0 < r' \<Longrightarrow> 0 < s' \<Longrightarrow> 0 < nu' \<Longrightarrow>
     NormalUC_init sample_gamma sample_normal N' sum_x' sum_x_sq' (Some u) (Some p) m' r' s' nu' g
       = Inr (\<lparr>N = N', sum_x = sum_x', sum_x_sq = sum_x_sq', m = m', r = r', s = s', nu = nu',
               mu = Some u, rho = Some p\<rparr>, g)"
  by (simp add: NormalUC_init_def Normal_init_def normal.defs normal_uc.defs)

theorem init_stores_supplied_parameters_witness:
  "NormalUC_init gamma_mean normal_mean 0 0 0 (Some 0) (Some (- 1)) 0 1 1 1 (0::nat)
     = Inr (\<lparr>N = 0, sum_x = 0, sum_x_sq = 0, m = 0, r = 1, s = 1, nu = 1,
             mu = Some 0, rho = Some (- 1)\<rparr>, 0)"
  using init_stores_supplied_parameters [of 1 1 1 gamma_mean normal_mean 0 0 0 0 "- 1" 0 0]
  by simp

end
